theory Spec2Isabelle
  imports Main "HOL-Library.Word"
begin

unbundle bit_operations_syntax

section \<open>The text-to-speech endpoint of tts_server.py\<close>

text \<open>
  The repository is one Flask handler, \<^verbatim>\<open>synthesize\<close>, bound to
  \<^verbatim>\<open>POST /synthesize\<close>. It reads the parsed JSON body, looks up \<^verbatim>\<open>text\<close>,
  answers 400 when the value is falsy, and otherwise draws a UUID, builds a file name
  under \<^verbatim>\<open>OUTPUT_DIR\<close>, calls the preloaded Coqui model's \<^verbatim>\<open>tts_to_file\<close> and
  answers with the path. The model below follows the handler line by line; what the
  handler calls but does not define (Python's truthiness, \<^verbatim>\<open>dict.get\<close>,
  \<^verbatim>\<open>uuid.uuid4().hex\<close>, \<^verbatim>\<open>os.path.join\<close>) is written out after the CPython
  standard library, and the speech model is a parameter.
\<close>

subsection \<open>Values of a parsed JSON body\<close>

text \<open>
  A Python float, as far as the handler can tell floats apart: a finite value
  \<open>m * 2 ^ e\<close>, an infinity with its sign, or a NaN (Python's \<^verbatim>\<open>json.loads\<close>
  accepts \<^verbatim>\<open>NaN\<close> and \<^verbatim>\<open>Infinity\<close>).
\<close>

datatype pyfloat = Finite int int | Infinity bool | NaN

text \<open>
  What \<^verbatim>\<open>request.json\<close> can evaluate to: \<^verbatim>\<open>None\<close>, a bool, an int, a float,
  a str, a list or a dict. A str is kept as the list of its characters; the handler
  only asks whether it is empty. A dict is kept as the list of its items; its keys are
  distinct in Python, and a lookup takes the binding of the key.
\<close>

datatype json =
    JNull
  | JBool bool
  | JInt int
  | JFloat pyfloat
  | JStr string
  | JArr "json list"
  | JObj "(string \<times> json) list"

text \<open>Python's \<^verbatim>\<open>bool(x)\<close>, which \<^verbatim>\<open>not text\<close> negates.\<close>

fun truthy :: "json \<Rightarrow> bool" where
  "truthy JNull = False"
| "truthy (JBool b) = b"
| "truthy (JInt n) = (n \<noteq> 0)"
| "truthy (JFloat (Finite m e)) = (m \<noteq> 0)"
| "truthy (JFloat (Infinity s)) = True"
| "truthy (JFloat NaN) = True"
| "truthy (JStr s) = (s \<noteq> [])"
| "truthy (JArr xs) = (xs \<noteq> [])"
| "truthy (JObj kvs) = (kvs \<noteq> [])"

subsection \<open>Exceptions and responses\<close>

text \<open>
  The exceptions that can leave the handler: the HTTP error that \<^verbatim>\<open>request.json\<close>
  raises for a body that is not JSON (with its status code), the \<^verbatim>\<open>AttributeError\<close>
  of \<^verbatim>\<open>data.get\<close> on a value that has no such method, and whatever the speech
  model raises.
\<close>

datatype 'e exn = HTTPException nat | AttributeError | SynthesisError 'e

text \<open>A handler either returns a response (status code and JSON body) or raises.\<close>

datatype 'e outcome = Response nat json | Raised "'e exn"

text \<open>
  \<^verbatim>\<open>data.get("text", "")\<close>: only a dict has \<^verbatim>\<open>get\<close>; on \<^verbatim>\<open>None\<close>, a bool,
  a number, a str or a list the attribute lookup raises.
\<close>

fun dict_get :: "json \<Rightarrow> string \<Rightarrow> json \<Rightarrow> 'e exn + json" where
  "dict_get (JObj kvs) k d = Inr (case map_of kvs k of None \<Rightarrow> d | Some v \<Rightarrow> v)"
| "dict_get _ k d = Inl AttributeError"

subsection \<open>uuid.uuid4().hex\<close>

text \<open>
  \<^verbatim>\<open>uuid4()\<close> is \<^verbatim>\<open>UUID(bytes=os.urandom(16), version=4)\<close>: the sixteen random
  bytes read as a 128-bit integer, with the variant and version bits overwritten.
\<close>

definition uuid_of_random :: "128 word \<Rightarrow> 128 word" where
  "uuid_of_random r =
     (let i = r AND NOT (push_bit 48 0xc000);
          i = i OR push_bit 48 0x8000;
          i = i AND NOT (push_bit 64 0xf000);
          i = i OR push_bit 76 4
      in i)"

definition hexdigit :: "nat \<Rightarrow> char" where
  "hexdigit d = ''0123456789abcdef'' ! d"

text \<open>The digits of \<^verbatim>\<open>'%x' % n\<close>, most significant first.\<close>

fun hex_digits :: "nat \<Rightarrow> string" where
  "hex_digits n =
     (if n < 16 then [hexdigit n] else hex_digits (n div 16) @ [hexdigit (n mod 16)])"

declare hex_digits.simps [simp del]

text \<open>The \<^verbatim>\<open>0\<close> flag with a width: pad on the left, never truncate.\<close>

definition zero_pad :: "nat \<Rightarrow> string \<Rightarrow> string" where
  "zero_pad width s = replicate (width - length s) (CHR ''0'') @ s"

text \<open>\<^verbatim>\<open>UUID.hex\<close> is \<^verbatim>\<open>'%032x' % self.int\<close>.\<close>

definition uuid_hex :: "128 word \<Rightarrow> string" where
  "uuid_hex u = zero_pad 32 (hex_digits (unat u))"

subsection \<open>os.path\<close>

text \<open>\<^verbatim>\<open>posixpath.join\<close> for two components, and \<^verbatim>\<open>posixpath.isabs\<close>.\<close>

definition startswith_sep :: "string \<Rightarrow> bool" where
  "startswith_sep s = (case s of [] \<Rightarrow> False | c # _ \<Rightarrow> c = CHR ''/'')"

definition endswith_sep :: "string \<Rightarrow> bool" where
  "endswith_sep s = (case rev s of [] \<Rightarrow> False | c # _ \<Rightarrow> c = CHR ''/'')"

definition os_path_join :: "string \<Rightarrow> string \<Rightarrow> string" where
  "os_path_join a b =
     (if startswith_sep b then b
      else if a = [] \<or> endswith_sep a then a @ b
      else a @ ''/'' @ b)"

definition isabs :: "string \<Rightarrow> bool" where
  "isabs s = startswith_sep s"

subsection \<open>The world the handler runs in\<close>

text \<open>
  The handler touches three things outside itself: the operating system's entropy
  (through \<^verbatim>\<open>uuid4\<close>), the disk (only through the speech model) and the speech model.
  \<open>urandom\<close> is the sequence of 16-byte draws the system will deliver and \<open>drawn\<close>
  counts how many were taken; \<open>disk\<close> is the file system, of a type the handler never
  looks into; \<open>calls\<close> records each invocation of \<^verbatim>\<open>tts.tts_to_file\<close> with its
  \<^verbatim>\<open>text\<close> and \<^verbatim>\<open>file_path\<close> arguments.
\<close>

record 'fs world =
  urandom :: "nat \<Rightarrow> 128 word"
  drawn :: nat
  disk :: "'fs"
  calls :: "(json \<times> string) list"

text \<open>
  The speech model: given the text, the destination path and the disk, it leaves a
  disk behind and either returns (\<open>None\<close>) or raises (\<open>Some e\<close>). A raise can leave a
  changed disk, for instance a partly written file.
\<close>

type_synonym ('fs, 'e) synthesizer = "json \<Rightarrow> string \<Rightarrow> 'fs \<Rightarrow> 'fs \<times> 'e option"

text \<open>A disk with files: the content stored at each path that exists.\<close>

type_synonym 'c files = "string \<rightharpoonup> 'c"

definition file_exists :: "'c files \<Rightarrow> string \<Rightarrow> bool" where
  "file_exists d p = (d p \<noteq> None)"

definition uuid4 :: "'fs world \<Rightarrow> 128 word \<times> 'fs world" where
  "uuid4 w = (uuid_of_random (urandom w (drawn w)), w\<lparr>drawn := Suc (drawn w)\<rparr>)"

definition tts_to_file ::
  "('fs, 'e) synthesizer \<Rightarrow> json \<Rightarrow> string \<Rightarrow> 'fs world \<Rightarrow> 'e option \<times> 'fs world" where
  "tts_to_file tts text file_path w =
     (let (d, r) = tts text file_path (disk w)
      in (r, w\<lparr>disk := d, calls := calls w @ [(text, file_path)]\<rparr>))"

subsection \<open>The handler\<close>

definition OUTPUT_DIR :: string where
  "OUTPUT_DIR = ''/home/pi/.node-red/static/audio/tts''"

text \<open>
  A request, as far as the handler reads it: the value of \<^verbatim>\<open>request.json\<close>, or the
  status code of the HTTP error Flask raises in its place.
\<close>

record request =
  request_json :: "nat + json"

definition jsonify :: "(string \<times> json) list \<Rightarrow> json" where
  "jsonify kvs = JObj kvs"

definition synthesize ::
  "('fs, 'e) synthesizer \<Rightarrow> request \<Rightarrow> 'fs world \<Rightarrow> 'e outcome \<times> 'fs world" where
  "synthesize tts req w =
     (case request_json req of
        Inl code \<Rightarrow> (Raised (HTTPException code), w)
      | Inr data \<Rightarrow>
          (case dict_get data ''text'' (JStr '''') of
             Inl ex \<Rightarrow> (Raised ex, w)
           | Inr text \<Rightarrow>
               if \<not> truthy text
               then (Response 400 (jsonify [(''error'', JStr ''No text provided'')]), w)
               else
                 let (u, w1) = uuid4 w;
                     filename = ''tts_'' @ uuid_hex u @ ''.wav'';
                     filepath = os_path_join OUTPUT_DIR filename;
                     (r, w2) = tts_to_file tts text filepath w1
                 in (case r of
                       Some e \<Rightarrow> (Raised (SynthesisError e), w2)
                     | None \<Rightarrow> (Response 200 (jsonify [(''audio_path'', JStr filepath)]), w2))))"

subsection \<open>Notions used to state the properties\<close>

text \<open>
  The token and the path that the handler's next \<^verbatim>\<open>uuid4()\<close> call and its
  \<^verbatim>\<open>os.path.join\<close> produce in a given world (lines 46 and 47 of the source).
\<close>

definition next_token :: "'fs world \<Rightarrow> string" where
  "next_token w = uuid_hex (fst (uuid4 w))"

definition next_path :: "'fs world \<Rightarrow> string" where
  "next_path w = os_path_join OUTPUT_DIR (''tts_'' @ next_token w @ ''.wav'')"

text \<open>The two response bodies the handler builds.\<close>

definition error_body :: json where
  "error_body = JObj [(''error'', JStr ''No text provided'')]"

definition audio_body :: "string \<Rightarrow> json" where
  "audio_body p = JObj [(''audio_path'', JStr p)]"

text \<open>The lowercase hexadecimal digits.\<close>

definition hex_chars :: "char set" where
  "hex_chars = set ''0123456789abcdef''"



text \<open>
  Trimming as the specification words it (Python's \<^verbatim>\<open>str.strip()\<close> on ASCII
  whitespace). The handler does not call it; it is here to say which inputs are
  "empty after trimming".
\<close>

definition isspace :: "char \<Rightarrow> bool" where
  "isspace c =
     (c \<in> set [CHR '' '', CHR 0x09, CHR 0x0A, CHR 0x0B, CHR 0x0C, CHR 0x0D,
                CHR 0x1C, CHR 0x1D, CHR 0x1E, CHR 0x1F])"

definition strip :: "string \<Rightarrow> string" where
  "strip s = rev (dropWhile isspace (rev (dropWhile isspace s)))"




subsection \<open>Sample capabilities, worlds and requests\<close>

text \<open>A speech model that writes a WAV file at the path it is given and returns.\<close>

definition tts_writes :: "(string files, string) synthesizer" where
  "tts_writes text file_path d = (d(file_path \<mapsto> ''RIFF....WAVEfmt ''), None)"

text \<open>
  A speech model whose write fails midway: it leaves a truncated file at the path it is
  given and raises.
\<close>

definition tts_fails_midway :: "(string files, string) synthesizer" where
  "tts_fails_midway text file_path d = (d(file_path \<mapsto> ''RIFF''), Some ''OSError'')"

text \<open>A world with an empty disk whose entropy source counts up from a fixed value.\<close>

definition world0 :: "string files world" where
  "world0 =
     \<lparr>urandom = (\<lambda>n. 0x0123456789abcdef0123456789abcdef + of_nat n),
      drawn = 0, disk = Map.empty, calls = []\<rparr>"

definition request_of :: "json \<Rightarrow> request" where
  "request_of data = \<lparr>request_json = Inr data\<rparr>"

definition hello_request :: request where
  "hello_request = request_of (JObj [(''text'', JStr ''hello world'')])"



section \<open>Auxiliary facts\<close>

subsection \<open>Paths and tokens\<close>

lemma path_join_output:
  "os_path_join OUTPUT_DIR (''tts_'' @ t @ ''.wav'') = OUTPUT_DIR @ ''/tts_'' @ t @ ''.wav''"
  by (simp add: os_path_join_def OUTPUT_DIR_def startswith_sep_def endswith_sep_def)

lemma hexdigit_in: "d < 16 \<Longrightarrow> hexdigit d \<in> hex_chars"
  unfolding hexdigit_def hex_chars_def by (rule nth_mem) simp

lemma hex_digits_chars: "set (hex_digits n) \<subseteq> hex_chars"
proof (induction n rule: hex_digits.induct)
  case (1 n)
  show ?case
  proof (cases "n < 16")
    case True
    then show ?thesis by (simp add: hex_digits.simps [of n] hexdigit_in)
  next
    case False
    have "n mod 16 < 16" by simp
    then have "hexdigit (n mod 16) \<in> hex_chars" by (rule hexdigit_in)
    with False 1 show ?thesis by (simp add: hex_digits.simps [of n])
  qed
qed

lemma hex_digits_length: "0 < k \<Longrightarrow> n < 16 ^ k \<Longrightarrow> length (hex_digits n) \<le> k"
proof (induction n arbitrary: k rule: hex_digits.induct)
  case (1 n)
  show ?case
  proof (cases "n < 16")
    case True
    with 1(2) show ?thesis by (simp add: hex_digits.simps [of n] Suc_leI)
  next
    case False
    from 1(2) obtain j where k: "k = Suc j" by (cases k) auto
    with False 1(3) have j: "0 < j" by (cases j) auto
    from 1(3) k have "n div 16 < 16 ^ j"
      by (simp add: less_mult_imp_div_less mult.commute)
    with 1(1) [OF False j] have "length (hex_digits (n div 16)) \<le> j" .
    with False k show ?thesis by (simp add: hex_digits.simps [of n])
  qed
qed

lemma uuid_hex_length: "length (uuid_hex u) = 32"
proof -
  have "unat u < 2 ^ 128" using unsigned_less [of u] by simp
  also have "(2::nat) ^ 128 = 16 ^ 32" by simp
  finally have "length (hex_digits (unat u)) \<le> 32"
    by (intro hex_digits_length) simp_all
  then show ?thesis by (simp add: uuid_hex_def zero_pad_def)
qed

lemma uuid_hex_chars: "set (uuid_hex u) \<subseteq> hex_chars"
  using hex_digits_chars [of "unat u"]
  by (auto simp: uuid_hex_def zero_pad_def hex_chars_def)








lemma next_path_eq: "next_path w = OUTPUT_DIR @ ''/tts_'' @ next_token w @ ''.wav''"
  unfolding next_path_def by (rule path_join_output)


lemma next_token_fields [simp]:
  "next_token (w\<lparr>disk := d\<rparr>) = next_token w"
  "next_token (w\<lparr>calls := c\<rparr>) = next_token w"
  by (simp_all add: next_token_def uuid4_def)

lemma next_path_fields [simp]:
  "next_path (w\<lparr>disk := d\<rparr>) = next_path w"
  "next_path (w\<lparr>calls := c\<rparr>) = next_path w"
  by (simp_all add: next_path_def)



lemma isabs_next_path: "isabs (next_path w)"
  by (simp add: next_path_eq isabs_def startswith_sep_def OUTPUT_DIR_def)

subsection \<open>The handler, branch by branch\<close>

lemma synthesize_object:
  assumes "request_json req = Inr (JObj kvs)"
  shows "synthesize tts req w =
     (let text = (case map_of kvs ''text'' of None \<Rightarrow> JStr [] | Some v \<Rightarrow> v) in
      if \<not> truthy text then (Response 400 error_body, w)
      else (case snd (tts text (next_path w) (disk w)) of
              Some e \<Rightarrow> Raised (SynthesisError e)
            | None \<Rightarrow> Response 200 (audio_body (next_path w)),
            w\<lparr>drawn := Suc (drawn w),
              disk := fst (tts text (next_path w) (disk w)),
              calls := calls w @ [(text, next_path w)]\<rparr>))"
  using assms
  by (simp add: synthesize_def uuid4_def tts_to_file_def next_path_def next_token_def
      jsonify_def error_body_def audio_body_def Let_def split: prod.splits option.splits)

lemma synthesize_missing:
  "request_json req = Inr (JObj kvs) \<Longrightarrow> map_of kvs ''text'' = None \<Longrightarrow>
   synthesize tts req w = (Response 400 error_body, w)"
  by (simp add: synthesize_object)

lemma synthesize_falsy:
  "request_json req = Inr (JObj kvs) \<Longrightarrow> map_of kvs ''text'' = Some v \<Longrightarrow> \<not> truthy v \<Longrightarrow>
   synthesize tts req w = (Response 400 error_body, w)"
  by (simp add: synthesize_object)

lemma synthesize_truthy:
  "request_json req = Inr (JObj kvs) \<Longrightarrow> map_of kvs ''text'' = Some v \<Longrightarrow> truthy v \<Longrightarrow>
   synthesize tts req w =
     (case snd (tts v (next_path w) (disk w)) of
        Some e \<Rightarrow> Raised (SynthesisError e)
      | None \<Rightarrow> Response 200 (audio_body (next_path w)),
      w\<lparr>drawn := Suc (drawn w),
        disk := fst (tts v (next_path w) (disk w)),
        calls := calls w @ [(v, next_path w)]\<rparr>)"
  by (simp add: synthesize_object)

lemma falsy_iff:
  "\<not> truthy v \<longleftrightarrow>
     v \<in> {JNull, JBool False, JInt 0, JStr [], JArr [], JObj []} \<or> (\<exists>e. v = JFloat (Finite 0 e))"
  by (cases v rule: truthy.cases) auto

lemma synthesize_cases [case_names http attr reject accept]:
  obtains c where "synthesize tts req w = (Raised (HTTPException c), w)"
  | "synthesize tts req w = (Raised AttributeError, w)"
  | "synthesize tts req w = (Response 400 error_body, w)"
  | v where "truthy v"
      and "synthesize tts req w =
        (case snd (tts v (next_path w) (disk w)) of
           Some e \<Rightarrow> Raised (SynthesisError e)
         | None \<Rightarrow> Response 200 (audio_body (next_path w)),
         w\<lparr>drawn := Suc (drawn w),
           disk := fst (tts v (next_path w) (disk w)),
           calls := calls w @ [(v, next_path w)]\<rparr>)"
proof (cases "request_json req")
  case (Inl c)
  then have "synthesize tts req w = (Raised (HTTPException c), w)"
    by (simp add: synthesize_def)
  then show ?thesis by (rule that(1))
next
  case (Inr data)
  show ?thesis
  proof (cases "\<exists>kvs. data = JObj kvs")
    case False
    with Inr have "synthesize tts req w = (Raised AttributeError, w)"
      by (cases data) (simp_all add: synthesize_def)
    then show ?thesis by (rule that(2))
  next
    case True
    then obtain kvs where obj: "request_json req = Inr (JObj kvs)"
      using Inr by auto
    define tv where "tv = (case map_of kvs ''text'' of None \<Rightarrow> JStr [] | Some v \<Rightarrow> v)"
    show ?thesis
    proof (cases "truthy tv")
      case False
      then have "synthesize tts req w = (Response 400 error_body, w)"
        by (simp add: synthesize_object [OF obj] tv_def Let_def)
      then show ?thesis by (rule that(3))
    next
      case True
      then have "synthesize tts req w =
        (case snd (tts tv (next_path w) (disk w)) of
           Some e \<Rightarrow> Raised (SynthesisError e)
         | None \<Rightarrow> Response 200 (audio_body (next_path w)),
         w\<lparr>drawn := Suc (drawn w),
           disk := fst (tts tv (next_path w) (disk w)),
           calls := calls w @ [(tv, next_path w)]\<rparr>)"
        by (simp add: synthesize_object [OF obj] tv_def Let_def)
      with True show ?thesis by (rule that(4))
    qed
  qed
qed

lemma synthesize_200:
  assumes "fst (synthesize tts req w) = Response 200 body"
  shows "body = audio_body (next_path w)"
    and "urandom (snd (synthesize tts req w)) = urandom w"
    and "drawn (snd (synthesize tts req w)) = Suc (drawn w)"
proof -
  have "body = audio_body (next_path w) \<and> urandom (snd (synthesize tts req w)) = urandom w
      \<and> drawn (snd (synthesize tts req w)) = Suc (drawn w)"
  proof (cases rule: synthesize_cases [of tts req w])
    case (http c)
    with assms show ?thesis by simp
  next
    case attr
    with assms show ?thesis by simp
  next
    case reject
    with assms show ?thesis by simp
  next
    case (accept v)
    with assms show ?thesis by (simp split: option.splits)
  qed
  then show "body = audio_body (next_path w)"
    and "urandom (snd (synthesize tts req w)) = urandom w"
    and "drawn (snd (synthesize tts req w)) = Suc (drawn w)" by simp_all
qed


subsection \<open>The sample world\<close>

lemma next_token_world0: "next_token world0 = ''0123456789ab4def8123456789abcdef''"
  by (simp add: next_token_def uuid4_def world0_def uuid_of_random_def uuid_hex_def
      zero_pad_def hex_digits.simps hexdigit_def)

lemma next_path_world0:
  "next_path world0 = ''/home/pi/.node-red/static/audio/tts/tts_0123456789ab4def8123456789abcdef.wav''"
  by (simp add: next_path_eq next_token_world0 OUTPUT_DIR_def)

lemma world0_fields: "drawn world0 = 0" "disk world0 = Map.empty" "calls world0 = []"
  by (simp_all add: world0_def)

lemma hello_json: "request_json hello_request = Inr (JObj [(''text'', JStr ''hello world'')])"
  by (simp add: hello_request_def request_of_def)

lemma space_json:
  "request_json (request_of (JObj [(''text'', JStr '' '')])) = Inr (JObj [(''text'', JStr '' '')])"
  by (simp add: request_of_def)

lemma hello_world0:
  "synthesize tts_writes hello_request world0 =
     (Response 200 (audio_body (next_path world0)),
      world0\<lparr>drawn := Suc 0,
        disk := [next_path world0 \<mapsto> ''RIFF....WAVEfmt ''],
        calls := [(JStr ''hello world'', next_path world0)]\<rparr>)"
  by (simp add: synthesize_truthy [OF hello_json] tts_writes_def world0_fields)









section \<open>Properties of the endpoint\<close>

text \<open>
  C2. A body that is a JSON object in which \<^verbatim>\<open>text\<close> is absent or bound to the
  empty string is answered with exactly status 400 and the body
  \<^verbatim>\<open>{"error": "No text provided"}\<close>.
\<close>

theorem missing_or_empty_text_gives_400:
  assumes "request_json req = Inr (JObj kvs)"
    and "map_of kvs ''text'' = None \<or> map_of kvs ''text'' = Some (JStr [])"
  shows "fst (synthesize tts req w) = Response 400 (JObj [(''error'', JStr ''No text provided'')])"
  using assms by (auto simp: synthesize_object error_body_def)

theorem missing_or_empty_text_gives_400_witness:
  "fst (synthesize tts_writes (request_of (JObj [])) world0) =
     Response 400 (JObj [(''error'', JStr ''No text provided'')]) \<and>
   fst (synthesize tts_writes (request_of (JObj [(''text'', JStr [])])) world0) =
     Response 400 (JObj [(''error'', JStr ''No text provided'')])"
  using missing_or_empty_text_gives_400
      [of "request_of (JObj [])" "[]" tts_writes world0]
    missing_or_empty_text_gives_400
      [of "request_of (JObj [(''text'', JStr [])])" "[(''text'', JStr [])]" tts_writes world0]
  by (simp add: request_of_def)

text \<open>
  C9. When the body parses to JSON \<^verbatim>\<open>null\<close>, so that \<^verbatim>\<open>request.json\<close> is
  \<^verbatim>\<open>None\<close>, the lookup of \<^verbatim>\<open>text\<close> raises: the handler ends in an unhandled
  \<^verbatim>\<open>AttributeError\<close> and not in the 400 validation response.
\<close>

theorem null_body_raises:
  "request_json req = Inr JNull \<Longrightarrow>
   synthesize tts req w = (Raised AttributeError, w) \<and>
   fst (synthesize tts req w) \<noteq> Response 400 error_body"
  by (simp add: synthesize_def)

theorem null_body_raises_witness:
  "request_json (request_of JNull) = Inr JNull \<and>
   synthesize tts_writes (request_of JNull) world0 = (Raised AttributeError, world0)"
  using null_body_raises [of "request_of JNull" tts_writes world0]
  by (simp add: request_of_def)

text \<open>
  C1, as the handler has it. For a body whose \<^verbatim>\<open>text\<close> is a non-empty string, and a
  speech model that returns without raising, the handler answers 200 with the body
  \<^verbatim>\<open>{"audio_path": p}\<close>, where \<open>p\<close> is the very path it passed to the speech model; the
  disk it leaves is the one the speech model left, so a file written at \<open>p\<close> exists when
  the response is returned. Without the proviso the claim fails: a speech model can write
  at the path and then raise, and the handler then raises too.
\<close>

theorem accepted_text_returns_path:
  assumes "request_json req = Inr (JObj kvs)"
    and "map_of kvs ''text'' = Some (JStr s)"
    and "s \<noteq> []"
    and "snd (tts (JStr s) (next_path w) (disk w)) = None"
  shows "fst (synthesize tts req w) = Response 200 (JObj [(''audio_path'', JStr (next_path w))])
       \<and> calls (snd (synthesize tts req w)) = calls w @ [(JStr s, next_path w)]
       \<and> (file_exists (fst (tts (JStr s) (next_path w) (disk w))) (next_path w)
            \<longrightarrow> file_exists (disk (snd (synthesize tts req w))) (next_path w))"
  using assms by (simp add: synthesize_truthy audio_body_def)

theorem accepted_text_returns_path_witness:
  "request_json hello_request = Inr (JObj [(''text'', JStr ''hello world'')])
   \<and> snd (tts_writes (JStr ''hello world'') (next_path world0) (disk world0)) = None
   \<and> file_exists (fst (tts_writes (JStr ''hello world'') (next_path world0) (disk world0)))
        (next_path world0)
   \<and> fst (synthesize tts_writes hello_request world0) =
        Response 200 (JObj [(''audio_path'',
          JStr ''/home/pi/.node-red/static/audio/tts/tts_0123456789ab4def8123456789abcdef.wav'')])
   \<and> calls (snd (synthesize tts_writes hello_request world0)) =
        [(JStr ''hello world'',
          ''/home/pi/.node-red/static/audio/tts/tts_0123456789ab4def8123456789abcdef.wav'')]
   \<and> file_exists (disk (snd (synthesize tts_writes hello_request world0)))
        ''/home/pi/.node-red/static/audio/tts/tts_0123456789ab4def8123456789abcdef.wav''"
  using accepted_text_returns_path [of hello_request "[(''text'', JStr ''hello world'')]" "''hello world''"
      tts_writes world0]
  by (simp add: hello_json tts_writes_def file_exists_def next_path_world0 world0_fields)

theorem raising_capability_counterexample:
  "request_json hello_request = Inr (JObj [(''text'', JStr ''hello world'')])
   \<and> file_exists (fst (tts_fails_midway (JStr ''hello world'') (next_path world0) (disk world0)))
        (next_path world0)
   \<and> fst (synthesize tts_fails_midway hello_request world0) = Raised (SynthesisError ''OSError'')
   \<and> fst (synthesize tts_fails_midway hello_request world0) \<noteq>
        Response 200 (JObj [(''audio_path'', JStr (next_path world0))])"
  by (simp add: hello_json synthesize_truthy [OF hello_json] tts_fails_midway_def file_exists_def)

text \<open>
  C3, as the handler has it. The handler does not trim: for a body whose \<^verbatim>\<open>text\<close> is a
  string, the request is rejected with the 400 validation error, without a call of the
  speech model, exactly when the string is empty as given. A whitespace-only string such
  as \<^verbatim>\<open>" "\<close> is accepted and forwarded, which is why the claim as stated fails.
\<close>

theorem empty_string_rejected_untrimmed:
  assumes "request_json req = Inr (JObj kvs)"
    and "map_of kvs ''text'' = Some (JStr s)"
  shows "(s = [] \<longrightarrow>
            fst (synthesize tts req w) = Response 400 error_body
          \<and> calls (snd (synthesize tts req w)) = calls w)
       \<and> (s \<noteq> [] \<longrightarrow>
            fst (synthesize tts req w) \<noteq> Response 400 error_body
          \<and> calls (snd (synthesize tts req w)) = calls w @ [(JStr s, next_path w)])"
  using assms
  by (cases "s = []")
    (simp_all add: synthesize_falsy synthesize_truthy audio_body_def split: option.splits)

theorem empty_string_rejected_untrimmed_witness:
  "fst (synthesize tts_writes (request_of (JObj [(''text'', JStr [])])) world0) =
     Response 400 error_body
   \<and> calls (snd (synthesize tts_writes (request_of (JObj [(''text'', JStr [])])) world0)) = []
   \<and> fst (synthesize tts_writes (request_of (JObj [(''text'', JStr ''hi'')])) world0) \<noteq>
       Response 400 error_body
   \<and> calls (snd (synthesize tts_writes (request_of (JObj [(''text'', JStr ''hi'')])) world0)) =
       [(JStr ''hi'', next_path world0)]"
  using empty_string_rejected_untrimmed [of "request_of (JObj [(''text'', JStr [])])" "[(''text'', JStr [])]" "[]"
      tts_writes world0]
    empty_string_rejected_untrimmed [of "request_of (JObj [(''text'', JStr ''hi'')])" "[(''text'', JStr ''hi'')]" "''hi''"
      tts_writes world0]
  by (simp add: request_of_def world0_fields)

theorem whitespace_text_accepted_counterexample:
  "strip '' '' = []
   \<and> fst (synthesize tts_writes (request_of (JObj [(''text'', JStr '' '')])) world0) =
       Response 200 (audio_body (next_path world0))
   \<and> fst (synthesize tts_writes (request_of (JObj [(''text'', JStr '' '')])) world0) \<noteq>
       Response 400 error_body
   \<and> calls (snd (synthesize tts_writes (request_of (JObj [(''text'', JStr '' '')])) world0)) =
       [(JStr '' '', next_path world0)]"
  by (simp add: synthesize_truthy [OF space_json] tts_writes_def world0_fields
      strip_def isspace_def)

text \<open>
  C4. When validation fails (the looked-up \<^verbatim>\<open>text\<close>, with the default \<^verbatim>\<open>""\<close> for a
  missing key, is falsy), the request has no side effect: the world is returned as it
  was, so the speech model is not called, no random token is drawn and the disk is
  unchanged.
\<close>

theorem validation_failure_leaves_world:
  assumes "request_json req = Inr (JObj kvs)"
    and "\<not> truthy (case map_of kvs ''text'' of None \<Rightarrow> JStr [] | Some v \<Rightarrow> v)"
  shows "snd (synthesize tts req w) = w
       \<and> calls (snd (synthesize tts req w)) = calls w
       \<and> drawn (snd (synthesize tts req w)) = drawn w
       \<and> disk (snd (synthesize tts req w)) = disk w"
  using assms by (simp add: synthesize_object)

theorem validation_failure_leaves_world_witness:
  "snd (synthesize tts_writes (request_of (JObj [])) world0) = world0
   \<and> snd (synthesize tts_writes (request_of (JObj [(''text'', JStr [])])) world0) = world0
   \<and> disk (snd (synthesize tts_writes (request_of (JObj [(''text'', JStr [])])) world0)) =
       Map.empty"
  using validation_failure_leaves_world [of "request_of (JObj [])" "[]" tts_writes world0]
    validation_failure_leaves_world [of "request_of (JObj [(''text'', JStr [])])" "[(''text'', JStr [])]" tts_writes world0]
  by (simp add: request_of_def world0_fields)

text \<open>
  C5. Whenever the handler answers 200, the \<^verbatim>\<open>audio_path\<close> of the body is
  \<^verbatim>\<open>os.path.join(OUTPUT_DIR, "tts_" + t + ".wav")\<close>, which is \<^verbatim>\<open>OUTPUT_DIR\<close>, a slash
  and the file name; the token \<open>t\<close> has 32 characters, all of them lowercase hexadecimal
  digits, and the path is absolute.
\<close>

theorem audio_path_format:
  assumes "fst (synthesize tts req w) = Response 200 body"
  shows "body = JObj [(''audio_path'',
                 JStr (os_path_join OUTPUT_DIR (''tts_'' @ next_token w @ ''.wav'')))]
       \<and> os_path_join OUTPUT_DIR (''tts_'' @ next_token w @ ''.wav'') =
            OUTPUT_DIR @ ''/'' @ ''tts_'' @ next_token w @ ''.wav''
       \<and> length (next_token w) = 32
       \<and> set (next_token w) \<subseteq> hex_chars
       \<and> isabs (os_path_join OUTPUT_DIR (''tts_'' @ next_token w @ ''.wav''))"
proof -
  have "body = audio_body (next_path w)" using assms by (rule synthesize_200(1))
  then have "body = JObj [(''audio_path'',
                 JStr (os_path_join OUTPUT_DIR (''tts_'' @ next_token w @ ''.wav'')))]"
    by (simp add: audio_body_def next_path_def)
  moreover have "os_path_join OUTPUT_DIR (''tts_'' @ next_token w @ ''.wav'') =
            OUTPUT_DIR @ ''/'' @ ''tts_'' @ next_token w @ ''.wav''"
    using path_join_output [of "next_token w"] by simp
  moreover have "length (next_token w) = 32"
    by (simp add: next_token_def uuid_hex_length)
  moreover have "set (next_token w) \<subseteq> hex_chars"
    by (simp add: next_token_def uuid_hex_chars)
  moreover have "isabs (os_path_join OUTPUT_DIR (''tts_'' @ next_token w @ ''.wav''))"
    using isabs_next_path [of w] by (simp add: next_path_def)
  ultimately show ?thesis by blast
qed

theorem audio_path_format_witness:
  "fst (synthesize tts_writes hello_request world0) =
     Response 200 (JObj [(''audio_path'',
       JStr ''/home/pi/.node-red/static/audio/tts/tts_0123456789ab4def8123456789abcdef.wav'')])
   \<and> next_token world0 = ''0123456789ab4def8123456789abcdef''
   \<and> length (next_token world0) = 32
   \<and> set (next_token world0) \<subseteq> hex_chars
   \<and> isabs ''/home/pi/.node-red/static/audio/tts/tts_0123456789ab4def8123456789abcdef.wav''"
proof -
  have h: "fst (synthesize tts_writes hello_request world0) =
      Response 200 (audio_body (next_path world0))"
    by (simp add: hello_world0)
  note facts = audio_path_format [OF h]
  have p: "os_path_join OUTPUT_DIR (''tts_'' @ next_token world0 @ ''.wav'') =
      ''/home/pi/.node-red/static/audio/tts/tts_0123456789ab4def8123456789abcdef.wav''"
    using next_path_world0 by (simp only: next_path_def)
  from facts have "isabs (os_path_join OUTPUT_DIR (''tts_'' @ next_token world0 @ ''.wav''))"
    by (rule conjunct2 [THEN conjunct2, THEN conjunct2, THEN conjunct2])
  then have 1: "isabs ''/home/pi/.node-red/static/audio/tts/tts_0123456789ab4def8123456789abcdef.wav''"
    by (simp only: p)
  from facts have 2: "length (next_token world0) = 32"
    by (rule conjunct2 [THEN conjunct2, THEN conjunct1])
  from facts have 3: "set (next_token world0) \<subseteq> hex_chars"
    by (rule conjunct2 [THEN conjunct2, THEN conjunct2, THEN conjunct1])
  have 4: "fst (synthesize tts_writes hello_request world0) =
     Response 200 (JObj [(''audio_path'',
       JStr ''/home/pi/.node-red/static/audio/tts/tts_0123456789ab4def8123456789abcdef.wav'')])"
    unfolding h audio_body_def next_path_world0 ..
  from 4 next_token_world0 2 3 1 show ?thesis by (intro conjI)
qed



text \<open>
  C7. Nothing wraps the call of the speech model: when \<^verbatim>\<open>text\<close> passes validation and
  the speech model raises, the handler raises the same exception, returns no response at
  all (neither the 200 nor the 400), and leaves the disk exactly as the speech model left
  it, a partly written file included.
\<close>

theorem synthesis_failure_propagates:
  assumes "request_json req = Inr (JObj kvs)"
    and "map_of kvs ''text'' = Some v"
    and "truthy v"
    and "tts v (next_path w) (disk w) = (d, Some e)"
  shows "fst (synthesize tts req w) = Raised (SynthesisError e)
       \<and> (\<forall>code body. fst (synthesize tts req w) \<noteq> Response code body)
       \<and> disk (snd (synthesize tts req w)) = d
       \<and> calls (snd (synthesize tts req w)) = calls w @ [(v, next_path w)]"
  using assms by (simp add: synthesize_truthy)

theorem synthesis_failure_propagates_witness:
  "tts_fails_midway (JStr ''hello world'') (next_path world0) (disk world0) =
     ([next_path world0 \<mapsto> ''RIFF''], Some ''OSError'')
   \<and> fst (synthesize tts_fails_midway hello_request world0) = Raised (SynthesisError ''OSError'')
   \<and> disk (snd (synthesize tts_fails_midway hello_request world0)) =
       [next_path world0 \<mapsto> ''RIFF'']
   \<and> file_exists (disk (snd (synthesize tts_fails_midway hello_request world0)))
       (next_path world0)"
  using synthesis_failure_propagates [of hello_request "[(''text'', JStr ''hello world'')]" "JStr ''hello world''"
      tts_fails_midway world0 "[next_path world0 \<mapsto> ''RIFF'']" "''OSError''"]
  by (simp add: hello_json tts_fails_midway_def world0_fields file_exists_def)




text \<open>
  C10. Validation looks at truthiness only. For an object body with a \<^verbatim>\<open>text\<close> value
  \<open>v\<close> of any type: if \<open>v\<close> is truthy it passes validation and is handed to the speech
  model unchanged; if it is falsy the answer is the 400 validation error. The falsy
  values are \<^verbatim>\<open>null\<close>, \<^verbatim>\<open>false\<close>, \<^verbatim>\<open>0\<close>, a zero float, the empty string, the empty
  list and the empty object.
\<close>

theorem validation_is_truthiness:
  assumes "request_json req = Inr (JObj kvs)"
    and "map_of kvs ''text'' = Some v"
  shows "(truthy v \<longrightarrow>
            calls (snd (synthesize tts req w)) = calls w @ [(v, next_path w)]
          \<and> fst (synthesize tts req w) \<noteq> Response 400 error_body)
       \<and> (\<not> truthy v \<longrightarrow> synthesize tts req w = (Response 400 error_body, w))
       \<and> (\<not> truthy v \<longleftrightarrow>
            v \<in> {JNull, JBool False, JInt 0, JStr [], JArr [], JObj []}
          \<or> (\<exists>e. v = JFloat (Finite 0 e)))"
proof (intro conjI impI)
  assume "truthy v"
  with assms show "calls (snd (synthesize tts req w)) = calls w @ [(v, next_path w)]"
    by (simp add: synthesize_truthy)
  from \<open>truthy v\<close> assms show "fst (synthesize tts req w) \<noteq> Response 400 error_body"
    by (simp add: synthesize_truthy audio_body_def split: option.splits)
next
  assume "\<not> truthy v"
  with assms show "synthesize tts req w = (Response 400 error_body, w)"
    by (simp add: synthesize_falsy)
next
  show "\<not> truthy v \<longleftrightarrow>
            v \<in> {JNull, JBool False, JInt 0, JStr [], JArr [], JObj []}
          \<or> (\<exists>e. v = JFloat (Finite 0 e))"
    by (rule falsy_iff)
qed

theorem validation_is_truthiness_witness:
  "calls (snd (synthesize tts_writes (request_of (JObj [(''text'', JInt 7)])) world0)) =
     [(JInt 7, next_path world0)]
   \<and> calls (snd (synthesize tts_writes
        (request_of (JObj [(''text'', JArr [JStr ''a''])])) world0)) =
     [(JArr [JStr ''a''], next_path world0)]
   \<and> synthesize tts_writes (request_of (JObj [(''text'', JInt 0)])) world0 =
       (Response 400 error_body, world0)
   \<and> synthesize tts_writes (request_of (JObj [(''text'', JBool False)])) world0 =
       (Response 400 error_body, world0)
   \<and> synthesize tts_writes (request_of (JObj [(''text'', JNull)])) world0 =
       (Response 400 error_body, world0)
   \<and> synthesize tts_writes (request_of (JObj [(''text'', JArr [])])) world0 =
       (Response 400 error_body, world0)"
  using validation_is_truthiness [of "request_of (JObj [(''text'', JInt 7)])" "[(''text'', JInt 7)]" "JInt 7"
      tts_writes world0]
    validation_is_truthiness [of "request_of (JObj [(''text'', JArr [JStr ''a''])])" "[(''text'', JArr [JStr ''a''])]"
      "JArr [JStr ''a'']" tts_writes world0]
    validation_is_truthiness [of "request_of (JObj [(''text'', JInt 0)])" "[(''text'', JInt 0)]" "JInt 0"
      tts_writes world0]
    validation_is_truthiness [of "request_of (JObj [(''text'', JBool False)])" "[(''text'', JBool False)]"
      "JBool False" tts_writes world0]
    validation_is_truthiness [of "request_of (JObj [(''text'', JNull)])" "[(''text'', JNull)]" "JNull"
      tts_writes world0]
    validation_is_truthiness [of "request_of (JObj [(''text'', JArr [])])" "[(''text'', JArr [])]" "JArr []"
      tts_writes world0]
  by (simp add: request_of_def world0_fields)

end
